theory Spec2Isabelle
  imports Main "HOL-Library.Word"
begin

section \<open>JetStream consumers (package jsch, consumers.go)\<close>

text \<open>
  A shallow embedding of \<^verbatim>\<open>consumers.go\<close>: the consumer configuration, the
  functional options that edit it, the functions that create and load a consumer through
  the NATS connection, and the methods of a loaded consumer.

  Go returns a pointer together with an error; the model keeps that shape as a pair of
  options, so that \<^verbatim>\<open>(nil, nil)\<close>, which the source does return, is a value
  of the model. An option of the source is a closure that edits the configuration through a
  pointer and returns an error; the model gives it the configuration and gets back the
  configuration as the closure left it, with the error.
\<close>

subsection \<open>Values from the server package\<close>

text \<open>
  \<^verbatim>\<open>server.ObservableConfig\<close>, with the fields the source reads and writes.
  A \<^verbatim>\<open>time.Time\<close> is a count of nanoseconds from Go's zero time, a
  \<^verbatim>\<open>time.Duration\<close> a signed 64-bit count of nanoseconds, Go's
  \<^verbatim>\<open>int\<close> an integer (the source only compares and prints it).
\<close>

type_synonym Time = int
type_synonym Duration = "64 word"

datatype AckPolicy = AckNone | AckAll | AckExplicit

datatype ReplayPolicy = ReplayInstant | ReplayOriginal

record ObservableConfig =
  Delivery :: string
  Durable :: string
  MsgSetSeq :: "64 word"
  StartTime :: Time
  DeliverAll :: bool
  DeliverLast :: bool
  AckPolicy :: AckPolicy
  AckWait :: Duration
  MaxDeliver :: int
  FilterSubject :: string
  ReplayPolicy :: ReplayPolicy
  SampleFrequency :: string

text \<open>The zero value of the struct, which Go gives to every field a literal leaves out.\<close>

definition ObservableConfig_zero :: ObservableConfig where
  "ObservableConfig_zero =
     \<lparr>Delivery = [], Durable = [], MsgSetSeq = 0, StartTime = 0, DeliverAll = False,
      DeliverLast = False, AckPolicy = AckNone, AckWait = 0, MaxDeliver = 0,
      FilterSubject = [], ReplayPolicy = ReplayInstant, SampleFrequency = []\<rparr>"

definition Second :: Duration where
  "Second = 1000000000"

text \<open>An error carries its message; the kinds tell where it was made.\<close>

datatype error =
    Errorf string
  | TransportError string
  | MarshalError string
  | UnmarshalError string

subsection \<open>Printing integers\<close>

fun decimal :: "nat \<Rightarrow> string" where
  "decimal n =
     (if n < 10 then [''0123456789'' ! n]
      else decimal (n div 10) @ [''0123456789'' ! (n mod 10)])"

declare decimal.simps [simp del]

text \<open>\<^verbatim>\<open>strconv.Itoa\<close>, and the verb \<^verbatim>\<open>%d\<close> of \<^verbatim>\<open>fmt\<close>.\<close>

definition Itoa :: "int \<Rightarrow> string" where
  "Itoa i = (if i < 0 then CHR ''-'' # decimal (nat (- i)) else decimal (nat i))"

text \<open>\<^verbatim>\<open>strings.HasPrefix\<close>\<close>

definition HasPrefix :: "string \<Rightarrow> string \<Rightarrow> bool" where
  "HasPrefix s p = (take (length p) s = p)"

subsection \<open>The templates\<close>

definition DefaultConsumer :: ObservableConfig where
  "DefaultConsumer =
     ObservableConfig_zero
       \<lparr>DeliverAll := True, AckPolicy := AckExplicit, AckWait := 30 * Second,
        ReplayPolicy := ReplayInstant\<rparr>"

definition SampledDefaultConsumer :: ObservableConfig where
  "SampledDefaultConsumer =
     ObservableConfig_zero
       \<lparr>DeliverAll := True, AckPolicy := AckExplicit, AckWait := 30 * Second,
        ReplayPolicy := ReplayInstant, SampleFrequency := ''100%''\<rparr>"

subsection \<open>Options\<close>

text \<open>
  \<^verbatim>\<open>type ConsumerOption func(o *server.ObservableConfig) error\<close>: the first
  component of the result is the configuration behind the pointer when the closure returns,
  the second the returned error. The pointer \<^verbatim>\<open>o\<close> of the source is
  \<open>c\<close> here.
\<close>

type_synonym ConsumerOption = "ObservableConfig \<Rightarrow> ObservableConfig \<times> error option"

definition DeliverySubject :: "string \<Rightarrow> ConsumerOption" where
  "DeliverySubject s = (\<lambda>c. (c\<lparr>Delivery := s\<rparr>, None))"

definition DurableName :: "string \<Rightarrow> ConsumerOption" where
  "DurableName s = (\<lambda>c. (c\<lparr>Durable := s\<rparr>, None))"

definition StartAtSequence :: "64 word \<Rightarrow> ConsumerOption" where
  "StartAtSequence s = (\<lambda>c. (c\<lparr>MsgSetSeq := s\<rparr>, None))"

definition StartAtTime :: "Time \<Rightarrow> ConsumerOption" where
  "StartAtTime t = (\<lambda>c. (c\<lparr>StartTime := t\<rparr>, None))"

definition DeliverAllAvailable :: ConsumerOption where
  "DeliverAllAvailable = (\<lambda>c. (c\<lparr>DeliverAll := True\<rparr>, None))"

definition StartWithLastReceived :: ConsumerOption where
  "StartWithLastReceived = (\<lambda>c. (c\<lparr>DeliverLast := True\<rparr>, None))"

text \<open>
  \<^verbatim>\<open>time.Now()\<close> is read when the closure runs; the reading is the first
  argument. \<^verbatim>\<open>-1 * d\<close> is a product of 64-bit integers and wraps.
\<close>

definition StartAtTimeDelta :: "Time \<Rightarrow> Duration \<Rightarrow> ConsumerOption" where
  "StartAtTimeDelta now d = (\<lambda>c. (c\<lparr>StartTime := now + sint (- 1 * d)\<rparr>, None))"

definition AcknowledgeNone :: ConsumerOption where
  "AcknowledgeNone = (\<lambda>c. (c\<lparr>AckPolicy := AckNone\<rparr>, None))"

definition AcknowledgeAll :: ConsumerOption where
  "AcknowledgeAll = (\<lambda>c. (c\<lparr>AckPolicy := AckAll\<rparr>, None))"

definition AcknowledgeExplicit :: ConsumerOption where
  "AcknowledgeExplicit = (\<lambda>c. (c\<lparr>AckPolicy := AckExplicit\<rparr>, None))"

text \<open>The option \<^verbatim>\<open>AckWait\<close>; the name alone is the field of the configuration.\<close>

definition AckWait_option :: "Duration \<Rightarrow> ConsumerOption" where
  "AckWait_option t = (\<lambda>c. (c\<lparr>AckWait := t\<rparr>, None))"

definition MaxDeliveryAttempts :: "int \<Rightarrow> ConsumerOption" where
  "MaxDeliveryAttempts n =
     (\<lambda>c. if n = 0 then (c, Some (Errorf ''configuration would prevent all deliveries''))
          else (c\<lparr>MaxDeliver := n\<rparr>, None))"

definition FilterStreamBySubject :: "string \<Rightarrow> ConsumerOption" where
  "FilterStreamBySubject s = (\<lambda>c. (c\<lparr>FilterSubject := s\<rparr>, None))"

definition ReplayInstantly :: ConsumerOption where
  "ReplayInstantly = (\<lambda>c. (c\<lparr>ReplayPolicy := ReplayInstant\<rparr>, None))"

definition ReplayAsReceived :: ConsumerOption where
  "ReplayAsReceived = (\<lambda>c. (c\<lparr>ReplayPolicy := ReplayOriginal\<rparr>, None))"

definition SamplePercent :: "int \<Rightarrow> ConsumerOption" where
  "SamplePercent i =
     (\<lambda>c. if i < 0 \<or> i > 100 then (c, Some (Errorf ''sample percent must be 0-100''))
          else if i = 0 then (c\<lparr>SampleFrequency := []\<rparr>, None)
          else (c\<lparr>SampleFrequency := Itoa i @ ''%''\<rparr>, None))"

text \<open>
  \<^verbatim>\<open>NewConsumerConfiguration\<close>: the loop over the options works on its own
  copy of the template and returns it with the first error.
\<close>

fun NewConsumerConfiguration ::
  "ObservableConfig \<Rightarrow> ConsumerOption list \<Rightarrow> ObservableConfig \<times> error option" where
  "NewConsumerConfiguration template [] = (template, None)"
| "NewConsumerConfiguration template (opt # opts) =
     (case opt template of
        (template', Some err) \<Rightarrow> (template', Some err)
      | (template', None) \<Rightarrow> NewConsumerConfiguration template' opts)"

subsection \<open>The calls of the source's own option constructors\<close>

text \<open>
  The sixteen constructors of the source, as data: a value of \<open>option_call\<close> is one
  call of a constructor, \<open>option_of\<close> the closure that the call returns and
  \<open>written_field\<close> the field that the closure assigns.
\<close>

datatype option_call =
    Call_DeliverySubject string
  | Call_DurableName string
  | Call_StartAtSequence "64 word"
  | Call_StartAtTime Time
  | Call_DeliverAllAvailable
  | Call_StartWithLastReceived
  | Call_StartAtTimeDelta Time Duration
  | Call_AcknowledgeNone
  | Call_AcknowledgeAll
  | Call_AcknowledgeExplicit
  | Call_AckWait Duration
  | Call_MaxDeliveryAttempts int
  | Call_FilterStreamBySubject string
  | Call_ReplayInstantly
  | Call_ReplayAsReceived
  | Call_SamplePercent int

fun option_of :: "option_call \<Rightarrow> ConsumerOption" where
  "option_of (Call_DeliverySubject s) = DeliverySubject s"
| "option_of (Call_DurableName s) = DurableName s"
| "option_of (Call_StartAtSequence s) = StartAtSequence s"
| "option_of (Call_StartAtTime t) = StartAtTime t"
| "option_of Call_DeliverAllAvailable = DeliverAllAvailable"
| "option_of Call_StartWithLastReceived = StartWithLastReceived"
| "option_of (Call_StartAtTimeDelta now d) = StartAtTimeDelta now d"
| "option_of Call_AcknowledgeNone = AcknowledgeNone"
| "option_of Call_AcknowledgeAll = AcknowledgeAll"
| "option_of Call_AcknowledgeExplicit = AcknowledgeExplicit"
| "option_of (Call_AckWait t) = AckWait_option t"
| "option_of (Call_MaxDeliveryAttempts n) = MaxDeliveryAttempts n"
| "option_of (Call_FilterStreamBySubject s) = FilterStreamBySubject s"
| "option_of Call_ReplayInstantly = ReplayInstantly"
| "option_of Call_ReplayAsReceived = ReplayAsReceived"
| "option_of (Call_SamplePercent i) = SamplePercent i"



subsection \<open>The connection\<close>

text \<open>
  The source talks to the server through the package's connection \<^verbatim>\<open>nc\<close>. Every
  call on it is written to a log, which the functions below take and return; a call that
  leaves the log as it was has sent nothing. What the connection answers is a function of
  the calls made so far and of the call itself, so a server that changes with the requests it
  gets is covered. Handlers, channels and subscriptions are opaque references.
\<close>

record Msg =
  Subject :: string
  Reply :: string
  Data :: string

type_synonym Handler = nat
type_synonym Chan = nat
type_synonym Subscription = nat

datatype netcall =
    NcRequest string string Duration
  | NcSubscribe string Handler
  | NcChanSubscribe string Chan
  | NcChanQueueSubscribe string string Chan
  | NcSubscribeSync string
  | NcQueueSubscribe string string Handler
  | NcQueueSubscribeSync string string
  | NcQueueSubscribeSyncWithChan string string Chan

record 's ObservableInfo =
  Config :: ObservableConfig
  State :: 's

record CreateObservableRequest =
  MsgSet :: string
  RequestConfig :: ObservableConfig

text \<open>
  What the source takes from outside this file: the subjects and markers of the server
  package, the package's \<^verbatim>\<open>Timeout\<close>, \<^verbatim>\<open>IsErrorResponse\<close> and
  \<^verbatim>\<open>IsOKResponse\<close>, the JSON encoder and decoder, the verb \<^verbatim>\<open>%q\<close>,
  the answers of the connection, and the zero value of
  \<^verbatim>\<open>server.ObservableState\<close> (the type \<open>'s\<close>). The decoder gets the value its
  target holds and returns the value it leaves there.
\<close>

record 's environment =
  JetStreamCreateObservable :: string
  JetStreamObservableInfo :: string
  JetStreamDeleteObservable :: string
  JetStreamRequestNextPre :: string
  JetStreamObservableAckSamplePre :: string
  OK :: string
  Timeout :: Duration
  IsErrorResponse :: "Msg \<Rightarrow> bool"
  IsOKResponse :: "Msg \<Rightarrow> bool"
  json_Marshal :: "CreateObservableRequest \<Rightarrow> error + string"
  json_Unmarshal :: "string \<Rightarrow> 's ObservableInfo \<Rightarrow> 's ObservableInfo \<times> error option"
  fmt_q :: "string \<Rightarrow> string"
  request_reply :: "netcall list \<Rightarrow> netcall \<Rightarrow> error + Msg"
  subscribe_reply :: "netcall list \<Rightarrow> netcall \<Rightarrow> error + Subscription"
  ObservableState_zero :: 's

definition ObservableInfo_zero :: "'s environment \<Rightarrow> 's ObservableInfo" where
  "ObservableInfo_zero env = \<lparr>Config = ObservableConfig_zero, State = ObservableState_zero env\<rparr>"

text \<open>\<^verbatim>\<open>nc.Request\<close>: the request is logged and the connection's answer returned.\<close>

definition nc_Request ::
  "'s environment \<Rightarrow> string \<Rightarrow> string \<Rightarrow> Duration \<Rightarrow> netcall list \<Rightarrow> (error + Msg) \<times> netcall list" where
  "nc_Request env subj data timeout log =
     (request_reply env log (NcRequest subj data timeout), log @ [NcRequest subj data timeout])"

text \<open>The subscribing calls of the connection, which return a subscription and an error.\<close>

definition nc_subscribe ::
  "'s environment \<Rightarrow> netcall \<Rightarrow> netcall list \<Rightarrow> (Subscription option \<times> error option) \<times> netcall list" where
  "nc_subscribe env call log =
     (case subscribe_reply env log call of
        Inl err \<Rightarrow> ((None, Some err), log @ [call])
      | Inr sub \<Rightarrow> ((Some sub, None), log @ [call]))"

subsection \<open>Consumers\<close>

record Consumer =
  name :: string
  stream :: string
  cfg :: ObservableConfig

definition loadConsumerInfo ::
  "'s environment \<Rightarrow> string \<Rightarrow> string \<Rightarrow> netcall list \<Rightarrow> ('s ObservableInfo \<times> error option) \<times> netcall list" where
  "loadConsumerInfo env s c log =
     (case nc_Request env (JetStreamObservableInfo env) (s @ '' '' @ c) (Timeout env) log of
        (Inl err, log') \<Rightarrow> ((ObservableInfo_zero env, Some err), log')
      | (Inr response, log') \<Rightarrow>
          if IsErrorResponse env response
          then ((ObservableInfo_zero env, Some (Errorf (Data response))), log')
          else (case json_Unmarshal env (Data response) (ObservableInfo_zero env) of
                  (info, Some err) \<Rightarrow> ((info, Some err), log')
                | (info, None) \<Rightarrow> ((info, None), log')))"

text \<open>The consumer behind the pointer when the function returns, and the error.\<close>

definition loadConfigForConsumer ::
  "'s environment \<Rightarrow> Consumer \<Rightarrow> netcall list \<Rightarrow> (Consumer \<times> error option) \<times> netcall list" where
  "loadConfigForConsumer env consumer log =
     (case loadConsumerInfo env (stream consumer) (name consumer) log of
        ((info, Some err), log') \<Rightarrow> ((consumer, Some err), log')
      | ((info, None), log') \<Rightarrow> ((consumer\<lparr>cfg := Config info\<rparr>, None), log'))"

definition LoadConsumer ::
  "'s environment \<Rightarrow> string \<Rightarrow> string \<Rightarrow> netcall list \<Rightarrow> (Consumer option \<times> error option) \<times> netcall list" where
  "LoadConsumer env stream_name consumer_name log =
     (case loadConfigForConsumer env
             \<lparr>name = consumer_name, stream = stream_name, cfg = ObservableConfig_zero\<rparr> log of
        ((consumer, Some err), log') \<Rightarrow> ((None, Some err), log')
      | ((consumer, None), log') \<Rightarrow> ((Some consumer, None), log'))"

definition NewConsumerFromTemplate ::
  "'s environment \<Rightarrow> string \<Rightarrow> ObservableConfig \<Rightarrow> ConsumerOption list \<Rightarrow> netcall list \<Rightarrow>
     (Consumer option \<times> error option) \<times> netcall list" where
  "NewConsumerFromTemplate env stream_name template opts log =
     (case NewConsumerConfiguration template opts of
        (config, Some err) \<Rightarrow> ((None, Some err), log)
      | (config, None) \<Rightarrow>
          (case json_Marshal env \<lparr>MsgSet = stream_name, RequestConfig = config\<rparr> of
             Inl err \<Rightarrow> ((None, Some err), log)
           | Inr jreq \<Rightarrow>
               (case nc_Request env (JetStreamCreateObservable env) jreq (Timeout env) log of
                  (Inl err, log') \<Rightarrow> ((None, Some err), log')
                | (Inr response, log') \<Rightarrow>
                    if \<not> HasPrefix (Data response) (OK env)
                    then ((None, Some (Errorf (Data response))), log')
                    else if Durable config \<noteq> []
                    then LoadConsumer env stream_name (Durable config) log'
                    else ((None, None), log'))))"

definition NewConsumer ::
  "'s environment \<Rightarrow> string \<Rightarrow> ConsumerOption list \<Rightarrow> netcall list \<Rightarrow>
     (Consumer option \<times> error option) \<times> netcall list" where
  "NewConsumer env stream_name opts log =
     NewConsumerFromTemplate env stream_name DefaultConsumer opts log"

definition LoadOrNewConsumerFromTemplate ::
  "'s environment \<Rightarrow> string \<Rightarrow> string \<Rightarrow> ObservableConfig \<Rightarrow> ConsumerOption list \<Rightarrow> netcall list \<Rightarrow>
     (Consumer option \<times> error option) \<times> netcall list" where
  "LoadOrNewConsumerFromTemplate env stream_name consumer_name template opts log =
     (case LoadConsumer env stream_name consumer_name log of
        ((c, err), log') \<Rightarrow>
          if c = None \<or> err \<noteq> None
          then NewConsumerFromTemplate env stream_name template opts log'
          else ((c, err), log'))"

definition LoadOrNewConsumer ::
  "'s environment \<Rightarrow> string \<Rightarrow> string \<Rightarrow> ConsumerOption list \<Rightarrow> netcall list \<Rightarrow>
     (Consumer option \<times> error option) \<times> netcall list" where
  "LoadOrNewConsumer env stream_name consumer_name opts log =
     LoadOrNewConsumerFromTemplate env stream_name consumer_name DefaultConsumer opts log"

definition Reset ::
  "'s environment \<Rightarrow> Consumer \<Rightarrow> netcall list \<Rightarrow> (Consumer \<times> error option) \<times> netcall list" where
  "Reset env c log = loadConfigForConsumer env c log"

subsection \<open>Methods of a consumer\<close>

text \<open>
  A method that only returns a field and whose name is taken by that field or by an option
  carries the receiver's type in its name.
\<close>

definition Name :: "Consumer \<Rightarrow> string" where
  "Name c = name c"

definition StreamName :: "Consumer \<Rightarrow> string" where
  "StreamName c = stream c"

definition IsPullMode :: "Consumer \<Rightarrow> bool" where
  "IsPullMode c = (Delivery (cfg c) = [])"

definition IsPushMode :: "Consumer \<Rightarrow> bool" where
  "IsPushMode c = (\<not> IsPullMode c)"

definition IsDurable :: "Consumer \<Rightarrow> bool" where
  "IsDurable c = (Durable (cfg c) \<noteq> [])"

definition Consumer_DeliverySubject :: "Consumer \<Rightarrow> string" where
  "Consumer_DeliverySubject c = Delivery (cfg c)"

definition Consumer_DurableName :: "Consumer \<Rightarrow> string" where
  "Consumer_DurableName c = Durable (cfg c)"

definition Consumer_SampleFrequency :: "Consumer \<Rightarrow> string" where
  "Consumer_SampleFrequency c = SampleFrequency (cfg c)"

definition Configuration :: "Consumer \<Rightarrow> ObservableConfig" where
  "Configuration c = cfg c"

definition NextSubject :: "'s environment \<Rightarrow> Consumer \<Rightarrow> string" where
  "NextSubject env c =
     (if \<not> IsPullMode c then []
      else JetStreamRequestNextPre env @ ''.'' @ stream c @ ''.'' @ name c)"

definition SampleSubject :: "'s environment \<Rightarrow> Consumer \<Rightarrow> string" where
  "SampleSubject env c =
     (if Consumer_SampleFrequency c = [] then []
      else JetStreamObservableAckSamplePre env @ ''.'' @ StreamName c @ ''.'' @ name c)"

definition IsSampled :: "'s environment \<Rightarrow> Consumer \<Rightarrow> bool" where
  "IsSampled env c = (SampleSubject env c \<noteq> [])"

text \<open>The message of the error that the subscribing methods make for a pull consumer.\<close>

definition not_push_based :: "Consumer \<Rightarrow> error" where
  "not_push_based c =
     Errorf (''consumer '' @ stream c @ '' > '' @ name c @ '' is not push-based'')"

definition not_pull_based :: "Consumer \<Rightarrow> error" where
  "not_pull_based c =
     Errorf (''consumer '' @ stream c @ '' > '' @ name c @ '' is not pull-based'')"

definition Subscribe ::
  "'s environment \<Rightarrow> Consumer \<Rightarrow> Handler \<Rightarrow> netcall list \<Rightarrow>
     (Subscription option \<times> error option) \<times> netcall list" where
  "Subscribe env c h log =
     (if \<not> IsPushMode c then ((None, Some (not_push_based c)), log)
      else nc_subscribe env (NcSubscribe (Consumer_DeliverySubject c) h) log)"

definition ChanSubscribe ::
  "'s environment \<Rightarrow> Consumer \<Rightarrow> Chan \<Rightarrow> netcall list \<Rightarrow>
     (Subscription option \<times> error option) \<times> netcall list" where
  "ChanSubscribe env c ch log =
     (if \<not> IsPushMode c then ((None, Some (not_push_based c)), log)
      else nc_subscribe env (NcChanSubscribe (Consumer_DeliverySubject c) ch) log)"

definition ChanQueueSubscribe ::
  "'s environment \<Rightarrow> Consumer \<Rightarrow> string \<Rightarrow> Chan \<Rightarrow> netcall list \<Rightarrow>
     (Subscription option \<times> error option) \<times> netcall list" where
  "ChanQueueSubscribe env c group_name ch log =
     (if \<not> IsPushMode c then ((None, Some (not_push_based c)), log)
      else nc_subscribe env (NcChanQueueSubscribe (Consumer_DeliverySubject c) group_name ch) log)"

definition SubscribeSync ::
  "'s environment \<Rightarrow> Consumer \<Rightarrow> netcall list \<Rightarrow>
     (Subscription option \<times> error option) \<times> netcall list" where
  "SubscribeSync env c log =
     (if \<not> IsPushMode c then ((None, Some (not_push_based c)), log)
      else nc_subscribe env (NcSubscribeSync (Consumer_DeliverySubject c)) log)"

definition QueueSubscribe ::
  "'s environment \<Rightarrow> Consumer \<Rightarrow> string \<Rightarrow> Handler \<Rightarrow> netcall list \<Rightarrow>
     (Subscription option \<times> error option) \<times> netcall list" where
  "QueueSubscribe env c queue h log =
     (if \<not> IsPushMode c then ((None, Some (not_push_based c)), log)
      else nc_subscribe env (NcQueueSubscribe (Consumer_DeliverySubject c) queue h) log)"

definition QueueSubscribeSync ::
  "'s environment \<Rightarrow> Consumer \<Rightarrow> string \<Rightarrow> netcall list \<Rightarrow>
     (Subscription option \<times> error option) \<times> netcall list" where
  "QueueSubscribeSync env c queue log =
     (if \<not> IsPushMode c then ((None, Some (not_push_based c)), log)
      else nc_subscribe env (NcQueueSubscribeSync (Consumer_DeliverySubject c) queue) log)"

definition QueueSubscribeSyncWithChan ::
  "'s environment \<Rightarrow> Consumer \<Rightarrow> string \<Rightarrow> Chan \<Rightarrow> netcall list \<Rightarrow>
     (Subscription option \<times> error option) \<times> netcall list" where
  "QueueSubscribeSyncWithChan env c queue ch log =
     (if \<not> IsPushMode c then ((None, Some (not_push_based c)), log)
      else nc_subscribe env
             (NcQueueSubscribeSyncWithChan (Consumer_DeliverySubject c) queue ch) log)"

definition NextMsgs ::
  "'s environment \<Rightarrow> Consumer \<Rightarrow> int \<Rightarrow> netcall list \<Rightarrow> (Msg option \<times> error option) \<times> netcall list" where
  "NextMsgs env c n log =
     (if \<not> IsPullMode c then ((None, Some (not_pull_based c)), log)
      else (case nc_Request env (NextSubject env c) (Itoa n) (Timeout env) log of
              (Inl err, log') \<Rightarrow> ((None, Some err), log')
            | (Inr m, log') \<Rightarrow> ((Some m, None), log')))"

definition NextMsg ::
  "'s environment \<Rightarrow> Consumer \<Rightarrow> netcall list \<Rightarrow> (Msg option \<times> error option) \<times> netcall list" where
  "NextMsg env c log = NextMsgs env c 1 log"

definition Consumer_State ::
  "'s environment \<Rightarrow> Consumer \<Rightarrow> netcall list \<Rightarrow> ('s \<times> error option) \<times> netcall list" where
  "Consumer_State env c log =
     (case loadConsumerInfo env (stream c) (name c) log of
        ((info, Some err), log') \<Rightarrow> ((ObservableState_zero env, Some err), log')
      | ((info, None), log') \<Rightarrow> ((State info, None), log'))"

definition Delete :: "'s environment \<Rightarrow> Consumer \<Rightarrow> netcall list \<Rightarrow> error option \<times> netcall list" where
  "Delete env c log =
     (case nc_Request env (JetStreamDeleteObservable env) (StreamName c @ '' '' @ Name c)
             (Timeout env) log of
        (Inl err, log') \<Rightarrow> (Some err, log')
      | (Inr response, log') \<Rightarrow>
          if IsErrorResponse env response then (Some (Errorf (Data response)), log')
          else if IsOKResponse env response then (None, log')
          else (Some (Errorf (''unknown response while removing consumer '' @ Name c @ '': ''
                              @ fmt_q env (Data response))), log'))"

subsection \<open>A small server to run the functions against\<close>

text \<open>
  An environment for concrete runs: a server that knows a consumer once a request to create
  one has been made, answers a request for its description with the payload of that request,
  and refuses everything that is not a request. Its encoder writes the stream and the durable
  name; its decoder reads the payload as a durable name into the default configuration.
\<close>

definition sample_reply :: "netcall list \<Rightarrow> netcall \<Rightarrow> error + Msg" where
  "sample_reply log call =
     (case call of
        NcRequest subj payload t \<Rightarrow>
          if subj = ''create'' then Inr \<lparr>Subject = [], Reply = [], Data = ''+OK''\<rparr>
          else if subj = ''info'' then
            (if log = [] then Inr \<lparr>Subject = [], Reply = [], Data = ''-ERR not found''\<rparr>
             else Inr \<lparr>Subject = [], Reply = [], Data = payload\<rparr>)
          else if subj = ''delete'' then Inr \<lparr>Subject = [], Reply = [], Data = ''+OK''\<rparr>
          else Inr \<lparr>Subject = subj, Reply = [], Data = payload\<rparr>
      | _ \<Rightarrow> Inl (TransportError ''not a request''))"

definition sample_env :: "unit environment" where
  "sample_env =
     \<lparr>JetStreamCreateObservable = ''create'',
      JetStreamObservableInfo = ''info'',
      JetStreamDeleteObservable = ''delete'',
      JetStreamRequestNextPre = ''next'',
      JetStreamObservableAckSamplePre = ''sample'',
      OK = ''+OK'',
      Timeout = 5 * Second,
      IsErrorResponse = (\<lambda>m. HasPrefix (Data m) ''-ERR''),
      IsOKResponse = (\<lambda>m. HasPrefix (Data m) ''+OK''),
      json_Marshal = (\<lambda>r. Inr (MsgSet r @ '' '' @ Durable (RequestConfig r))),
      json_Unmarshal =
        (\<lambda>payload info. (info\<lparr>Config := DefaultConsumer\<lparr>Durable := payload\<rparr>\<rparr>, None)),
      fmt_q = (\<lambda>s. CHR 0x22 # s @ [CHR 0x22]),
      request_reply = sample_reply,
      subscribe_reply = (\<lambda>log call. Inr (length log)),
      ObservableState_zero = ()\<rparr>"

definition pull_consumer :: Consumer where
  "pull_consumer = \<lparr>name = ''worker'', stream = ''ORDERS'', cfg = DefaultConsumer\<rparr>"

definition push_consumer :: Consumer where
  "push_consumer =
     \<lparr>name = ''worker'', stream = ''ORDERS'', cfg = DefaultConsumer\<lparr>Delivery := ''out''\<rparr>\<rparr>"

definition sampled_consumer :: Consumer where
  "sampled_consumer = \<lparr>name = ''worker'', stream = ''ORDERS'', cfg = SampledDefaultConsumer\<rparr>"

section \<open>Properties\<close>

subsection \<open>Applying options\<close>

lemmas option_defs =
  DeliverySubject_def DurableName_def StartAtSequence_def StartAtTime_def
  DeliverAllAvailable_def StartWithLastReceived_def StartAtTimeDelta_def
  AcknowledgeNone_def AcknowledgeAll_def AcknowledgeExplicit_def AckWait_option_def
  MaxDeliveryAttempts_def FilterStreamBySubject_def ReplayInstantly_def
  ReplayAsReceived_def SamplePercent_def

text \<open>Options that all succeed can be applied in two runs of the loop.\<close>

lemma NewConsumerConfiguration_append:
  "NewConsumerConfiguration t pre = (c, None) \<Longrightarrow>
   NewConsumerConfiguration t (pre @ rest) = NewConsumerConfiguration c rest"
proof (induction pre arbitrary: t)
  case Nil
  then show ?case by simp
next
  case (Cons opt pre)
  obtain t' e where step: "opt t = (t', e)" by (cases "opt t")
  show ?case
  proof (cases e)
    case None
    with step Cons.prems have "NewConsumerConfiguration t' pre = (c, None)" by simp
    from Cons.IH [OF this] step None show ?thesis by simp
  next
    case (Some err)
    with step Cons.prems show ?thesis by simp
  qed
qed

text \<open>A run of the loop that returns an error has a first option that fails.\<close>

lemma failing_run_has_first_failure:
  "snd (NewConsumerConfiguration t opts) = Some err \<Longrightarrow>
   \<exists>pre opt post c. opts = pre @ opt # post
      \<and> NewConsumerConfiguration t pre = (c, None) \<and> snd (opt c) = Some err"
proof (induction opts arbitrary: t)
  case Nil
  then show ?case by simp
next
  case (Cons opt opts)
  obtain t' e where step: "opt t = (t', e)" by (cases "opt t")
  show ?case
  proof (cases e)
    case (Some x)
    with step Cons.prems have "snd (opt t) = Some err" by simp
    moreover have "NewConsumerConfiguration t [] = (t, None)" by simp
    moreover have "opt # opts = [] @ opt # opts" by simp
    ultimately show ?thesis by blast
  next
    case None
    with step Cons.prems have "snd (NewConsumerConfiguration t' opts) = Some err" by simp
    from Cons.IH [OF this] obtain pre o' post c where
      split: "opts = pre @ o' # post" and
      pre: "NewConsumerConfiguration t' pre = (c, None)" and
      fails: "snd (o' c) = Some err"
      by blast
    from pre step None have "NewConsumerConfiguration t (opt # pre) = (c, None)" by simp
    moreover from split have "opt # opts = (opt # pre) @ o' # post" by simp
    ultimately show ?thesis using fails by blast
  qed
qed




text \<open>The constructors of the source: a call that fails has not touched the configuration,
  whether a call fails does not depend on the configuration, and each call assigns one
  field.\<close>

lemma option_of_failure_keeps_config:
  "snd (option_of k c) = None \<or> fst (option_of k c) = c"
  by (cases k) (simp_all add: option_defs)




text \<open>
  C1: when the options before \<open>opt\<close> all succeed and \<open>opt\<close> fails with \<open>err\<close>, whatever
  options follow, \<^verbatim>\<open>NewConsumerFromTemplate\<close> returns no consumer and the error
  \<open>err\<close> and leaves the log as it was (no request is sent); the loop stops with the
  configuration as \<open>opt\<close> left it, so no later option is applied; and when \<open>opt\<close> is a call
  of one of the source's constructors, it has left the configuration as it found it.
\<close>

theorem first_failing_option_aborts_build:
  assumes pre: "NewConsumerConfiguration template pre = (c, None)"
      and fails: "snd (opt c) = Some err"
  shows "NewConsumerFromTemplate env stream_name template (pre @ opt # post) log
           = ((None, Some err), log)
         \<and> NewConsumerConfiguration template (pre @ opt # post) = (fst (opt c), Some err)
         \<and> (\<forall>k. opt = option_of k \<longrightarrow> fst (opt c) = c)"
proof -
  obtain c' where step: "opt c = (c', Some err)"
    using fails by (cases "opt c") simp
  have conf: "NewConsumerConfiguration template (pre @ opt # post) = (c', Some err)"
    using NewConsumerConfiguration_append [OF pre, of "opt # post"] step by simp
  have build: "NewConsumerFromTemplate env stream_name template (pre @ opt # post) log
          = ((None, Some err), log)"
    by (simp add: NewConsumerFromTemplate_def conf)
  have keep: "\<forall>k. opt = option_of k \<longrightarrow> fst (opt c) = c"
  proof (intro allI impI)
    fix k
    assume "opt = option_of k"
    with fails option_of_failure_keeps_config [of k c] show "fst (opt c) = c" by simp
  qed
  from build conf keep step show ?thesis by simp
qed

text \<open>A run: a durable name, then no delivery attempts, then a delivery subject.\<close>

theorem first_failing_option_aborts_build_witness:
  "NewConsumerFromTemplate sample_env ''ORDERS'' DefaultConsumer
      [DurableName ''worker'', MaxDeliveryAttempts 0, DeliverySubject ''out''] []
     = ((None, Some (Errorf ''configuration would prevent all deliveries'')), [])
   \<and> NewConsumerConfiguration DefaultConsumer
      [DurableName ''worker'', MaxDeliveryAttempts 0, DeliverySubject ''out'']
     = (DefaultConsumer\<lparr>Durable := ''worker''\<rparr>,
        Some (Errorf ''configuration would prevent all deliveries''))"
proof -
  let ?c = "DefaultConsumer\<lparr>Durable := ''worker''\<rparr>"
  let ?err = "Errorf ''configuration would prevent all deliveries''"
  have pre: "NewConsumerConfiguration DefaultConsumer [DurableName ''worker''] = (?c, None)"
    by (simp add: DurableName_def)
  have fails: "snd (MaxDeliveryAttempts 0 ?c) = Some ?err"
    by (simp add: MaxDeliveryAttempts_def)
  have call: "MaxDeliveryAttempts 0 = option_of (Call_MaxDeliveryAttempts 0)"
    by simp
  note run = first_failing_option_aborts_build
         [where template = DefaultConsumer and pre = "[DurableName ''worker'']"
            and c = ?c and opt = "MaxDeliveryAttempts 0" and err = ?err
            and env = sample_env and stream_name = "''ORDERS''"
            and post = "[DeliverySubject ''out'']" and log = "[]", OF pre fails]
  from run call have keep: "fst (MaxDeliveryAttempts 0 ?c) = ?c" by blast
  from run keep show ?thesis by simp
qed




text \<open>
  C3: for every \<open>n\<close> other than 0, \<^verbatim>\<open>MaxDeliveryAttempts(n)\<close> succeeds and sets
  the field \<^verbatim>\<open>MaxDeliver\<close> to \<open>n\<close>, changing nothing else;
  \<^verbatim>\<open>MaxDeliveryAttempts(0)\<close> fails with the error "configuration would prevent
  all deliveries" and leaves the configuration as it was.
\<close>

theorem MaxDeliveryAttempts_result:
  "(n \<noteq> 0 \<longrightarrow> MaxDeliveryAttempts n c = (c\<lparr>MaxDeliver := n\<rparr>, None)
       \<and> MaxDeliver (fst (MaxDeliveryAttempts n c)) = n)
   \<and> MaxDeliveryAttempts 0 c = (c, Some (Errorf ''configuration would prevent all deliveries''))"
  by (simp add: MaxDeliveryAttempts_def)

theorem MaxDeliveryAttempts_result_witness:
  "MaxDeliveryAttempts (- 1) DefaultConsumer = (DefaultConsumer\<lparr>MaxDeliver := - 1\<rparr>, None)
   \<and> MaxDeliveryAttempts 0 DefaultConsumer
       = (DefaultConsumer, Some (Errorf ''configuration would prevent all deliveries''))"
  using MaxDeliveryAttempts_result [of "- 1" DefaultConsumer] by simp

subsection \<open>Sampling and delivery mode\<close>

lemma IsSampled_iff: "IsSampled env h \<longleftrightarrow> SampleFrequency (cfg h) \<noteq> []"
  by (simp add: IsSampled_def SampleSubject_def Consumer_SampleFrequency_def)

text \<open>
  C4: \<^verbatim>\<open>SamplePercent(i)\<close> succeeds exactly when \<open>0 \<le> i \<le> 100\<close>; outside that
  range it fails with the error "sample percent must be 0-100" and leaves the configuration
  as it was; a consumer that holds the configuration left by \<^verbatim>\<open>SamplePercent(0)\<close>
  is not sampled, and one that holds the configuration left by \<^verbatim>\<open>SamplePercent(i)\<close>
  with \<open>1 \<le> i \<le> 100\<close> is sampled.
\<close>

theorem SamplePercent_result:
  "(snd (SamplePercent i c) = None \<longleftrightarrow> 0 \<le> i \<and> i \<le> 100)
   \<and> (\<not> (0 \<le> i \<and> i \<le> 100) \<longrightarrow>
        SamplePercent i c = (c, Some (Errorf ''sample percent must be 0-100'')))
   \<and> (cfg h = fst (SamplePercent i c) \<longrightarrow> i = 0 \<longrightarrow> \<not> IsSampled env h)
   \<and> (cfg h = fst (SamplePercent i c) \<longrightarrow> 1 \<le> i \<and> i \<le> 100 \<longrightarrow> IsSampled env h)"
  by (auto simp add: SamplePercent_def IsSampled_iff)

theorem SamplePercent_result_witness:
  "snd (SamplePercent 50 DefaultConsumer) = None
   \<and> IsSampled sample_env (pull_consumer\<lparr>cfg := fst (SamplePercent 50 DefaultConsumer)\<rparr>)
   \<and> \<not> IsSampled sample_env
          (sampled_consumer\<lparr>cfg := fst (SamplePercent 0 SampledDefaultConsumer)\<rparr>)
   \<and> SamplePercent 101 DefaultConsumer
       = (DefaultConsumer, Some (Errorf ''sample percent must be 0-100''))"
  using SamplePercent_result
          [where i = 50 and c = DefaultConsumer and env = sample_env
             and h = "pull_consumer\<lparr>cfg := fst (SamplePercent 50 DefaultConsumer)\<rparr>"]
        SamplePercent_result
          [where i = 0 and c = SampledDefaultConsumer and env = sample_env
             and h = "sampled_consumer\<lparr>cfg := fst (SamplePercent 0 SampledDefaultConsumer)\<rparr>"]
        SamplePercent_result
          [where i = 101 and c = DefaultConsumer and env = sample_env and h = pull_consumer]
  by simp

text \<open>
  C5: a consumer is in pull mode exactly when the delivery subject of its configuration is
  empty, it is in push mode exactly when it is not in pull mode, and it is in one of the two
  modes and never in both.
\<close>

theorem pull_mode_and_push_mode:
  "(IsPullMode c \<longleftrightarrow> Delivery (cfg c) = [])
   \<and> (IsPushMode c \<longleftrightarrow> \<not> IsPullMode c)
   \<and> (IsPullMode c \<or> IsPushMode c)
   \<and> \<not> (IsPullMode c \<and> IsPushMode c)"
  by (simp add: IsPullMode_def IsPushMode_def)

theorem pull_mode_and_push_mode_witness:
  "IsPullMode pull_consumer \<and> \<not> IsPushMode pull_consumer
   \<and> IsPushMode push_consumer \<and> \<not> IsPullMode push_consumer"
  using pull_mode_and_push_mode [of pull_consumer] pull_mode_and_push_mode [of push_consumer]
  by (simp add: pull_consumer_def push_consumer_def DefaultConsumer_def
        ObservableConfig_zero_def)

text \<open>
  C6: the subject for the next message is non-empty exactly for a pull consumer and empty
  for a push consumer; the sample subject is non-empty exactly for a sampled consumer, that
  is one whose sample frequency is set, and empty otherwise; a non-empty one is its prefix,
  the stream and the consumer's name, joined by dots.
\<close>

theorem subjects_of_a_consumer:
  "(NextSubject env c \<noteq> [] \<longleftrightarrow> IsPullMode c)
   \<and> (IsPushMode c \<longrightarrow> NextSubject env c = [])
   \<and> (SampleSubject env c \<noteq> [] \<longleftrightarrow> IsSampled env c)
   \<and> (IsSampled env c \<longleftrightarrow> SampleFrequency (cfg c) \<noteq> [])
   \<and> (\<not> IsSampled env c \<longrightarrow> SampleSubject env c = [])
   \<and> (NextSubject env c \<noteq> [] \<longrightarrow>
        NextSubject env c = JetStreamRequestNextPre env @ ''.'' @ stream c @ ''.'' @ name c)
   \<and> (SampleSubject env c \<noteq> [] \<longrightarrow>
        SampleSubject env c
          = JetStreamObservableAckSamplePre env @ ''.'' @ stream c @ ''.'' @ name c)"
  by (simp add: NextSubject_def IsPushMode_def IsSampled_def SampleSubject_def StreamName_def
        Consumer_SampleFrequency_def)

theorem subjects_of_a_consumer_witness:
  "NextSubject sample_env sampled_consumer = ''next.ORDERS.worker''
   \<and> SampleSubject sample_env sampled_consumer = ''sample.ORDERS.worker''
   \<and> NextSubject sample_env push_consumer = []
   \<and> SampleSubject sample_env push_consumer = []"
  using subjects_of_a_consumer [of sample_env sampled_consumer]
        subjects_of_a_consumer [of sample_env push_consumer]
  by (simp add: sampled_consumer_def push_consumer_def sample_env_def IsPullMode_def
        IsPushMode_def SampledDefaultConsumer_def DefaultConsumer_def ObservableConfig_zero_def)

subsection \<open>Loading and creating\<close>

lemmas sample_defs =
  sample_env_def sample_reply_def HasPrefix_def Second_def
  pull_consumer_def push_consumer_def sampled_consumer_def

lemmas load_defs =
  LoadConsumer_def loadConfigForConsumer_def loadConsumerInfo_def nc_Request_def
  ObservableInfo_zero_def

text \<open>
  Loading makes exactly one call, the describe request for the stream and the name; it
  either fails and gives no consumer or gives a consumer and no error; creating only adds to
  the log.
\<close>

lemma loadConsumerInfo_log:
  "snd (loadConsumerInfo env s c log)
     = log @ [NcRequest (JetStreamObservableInfo env) (s @ '' '' @ c) (Timeout env)]"
  by (simp add: loadConsumerInfo_def nc_Request_def split: sum.split prod.split option.split)

lemma loadConfigForConsumer_log:
  "snd (loadConfigForConsumer env c log)
     = log @ [NcRequest (JetStreamObservableInfo env) (stream c @ '' '' @ name c) (Timeout env)]"
proof -
  obtain info e log' where r: "loadConsumerInfo env (stream c) (name c) log = ((info, e), log')"
    by (metis surj_pair)
  with loadConsumerInfo_log [of env "stream c" "name c" log]
  have "log' = log @ [NcRequest (JetStreamObservableInfo env) (stream c @ '' '' @ name c) (Timeout env)]"
    by simp
  with r show ?thesis by (cases e) (simp_all add: loadConfigForConsumer_def)
qed

lemma loadConfigForConsumer_failure:
  assumes "loadConfigForConsumer env c log = ((c', Some err), log')"
  shows "c' = c"
proof -
  obtain info e l where r: "loadConsumerInfo env (stream c) (name c) log = ((info, e), l)"
    by (metis surj_pair)
  show ?thesis
  proof (cases e)
    case None
    with r assms show ?thesis by (simp add: loadConfigForConsumer_def)
  next
    case (Some x)
    with r assms show ?thesis by (simp add: loadConfigForConsumer_def)
  qed
qed

lemma LoadConsumer_log:
  "snd (LoadConsumer env s n log)
     = log @ [NcRequest (JetStreamObservableInfo env) (s @ '' '' @ n) (Timeout env)]"
proof -
  let ?c = "\<lparr>name = n, stream = s, cfg = ObservableConfig_zero\<rparr>"
  obtain c' e log' where r: "loadConfigForConsumer env ?c log = ((c', e), log')"
    by (metis surj_pair)
  with loadConfigForConsumer_log [of env ?c log]
  have "log' = log @ [NcRequest (JetStreamObservableInfo env) (s @ '' '' @ n) (Timeout env)]"
    by simp
  with r show ?thesis by (cases e) (simp_all add: LoadConsumer_def)
qed

lemma LoadConsumer_shape:
  "(\<exists>err. fst (LoadConsumer env s n log) = (None, Some err))
   \<or> (\<exists>c. fst (LoadConsumer env s n log) = (Some c, None))"
proof -
  let ?c = "\<lparr>name = n, stream = s, cfg = ObservableConfig_zero\<rparr>"
  obtain c' e log' where r: "loadConfigForConsumer env ?c log = ((c', e), log')"
    by (metis surj_pair)
  then show ?thesis by (cases e) (simp_all add: LoadConsumer_def)
qed

lemma NewConsumerFromTemplate_log:
  "\<exists>rest. snd (NewConsumerFromTemplate env s t opts log) = log @ rest"
proof -
  obtain config e where conf: "NewConsumerConfiguration t opts = (config, e)"
    by (cases "NewConsumerConfiguration t opts")
  show ?thesis
  proof (cases e)
    case (Some err)
    with conf show ?thesis by (simp add: NewConsumerFromTemplate_def)
  next
    case None
    show ?thesis
    proof (cases "json_Marshal env \<lparr>MsgSet = s, RequestConfig = config\<rparr>")
      case (Inl err)
      with conf None show ?thesis by (simp add: NewConsumerFromTemplate_def)
    next
      case (Inr jreq)
      let ?rq = "NcRequest (JetStreamCreateObservable env) jreq (Timeout env)"
      show ?thesis
      proof (cases "request_reply env log ?rq")
        case (Inl err)
        with conf None Inr show ?thesis
          by (simp add: NewConsumerFromTemplate_def nc_Request_def)
      next
        case response: (Inr response)
        with conf None Inr LoadConsumer_log [of env s "Durable config" "log @ [?rq]"]
        show ?thesis
          by (simp add: NewConsumerFromTemplate_def nc_Request_def)
      qed
    qed
  qed
qed

text \<open>
  C7: when the options succeed, the request encodes, the connection answers the create
  request and the answer starts with the OK marker, then with a non-empty durable name in
  the final configuration \<^verbatim>\<open>NewConsumerFromTemplate\<close> returns what
  \<^verbatim>\<open>LoadConsumer\<close> for that name returns, called right after the create request;
  with an empty durable name it returns no consumer and no error.
\<close>

theorem build_returns_load_by_durable_name:
  assumes "NewConsumerConfiguration template opts = (config, None)"
      and "json_Marshal env \<lparr>MsgSet = stream_name, RequestConfig = config\<rparr> = Inr jreq"
      and "rq = NcRequest (JetStreamCreateObservable env) jreq (Timeout env)"
      and "request_reply env log rq = Inr response"
      and "HasPrefix (Data response) (OK env)"
  shows "(Durable config \<noteq> [] \<longrightarrow>
            NewConsumerFromTemplate env stream_name template opts log
              = LoadConsumer env stream_name (Durable config) (log @ [rq]))
         \<and> (Durable config = [] \<longrightarrow>
            NewConsumerFromTemplate env stream_name template opts log
              = ((None, None), log @ [rq]))"
  using assms by (simp add: NewConsumerFromTemplate_def nc_Request_def)

theorem build_returns_load_by_durable_name_witness:
  "NewConsumerFromTemplate sample_env ''ORDERS'' DefaultConsumer [DurableName ''worker''] []
     = ((Some \<lparr>name = ''worker'', stream = ''ORDERS'',
               cfg = DefaultConsumer\<lparr>Durable := ''ORDERS worker''\<rparr>\<rparr>, None),
        [NcRequest ''create'' ''ORDERS worker'' 5000000000,
         NcRequest ''info'' ''ORDERS worker'' 5000000000])
   \<and> NewConsumerFromTemplate sample_env ''ORDERS'' DefaultConsumer [] []
     = ((None, None), [NcRequest ''create'' ''ORDERS '' 5000000000])"
proof -
  have durable:
    "NewConsumerFromTemplate sample_env ''ORDERS'' DefaultConsumer [DurableName ''worker''] []
       = LoadConsumer sample_env ''ORDERS'' ''worker''
           ([] @ [NcRequest ''create'' ''ORDERS worker'' 5000000000])"
    using build_returns_load_by_durable_name [where template = DefaultConsumer and opts = "[DurableName ''worker'']"
                and config = "DefaultConsumer\<lparr>Durable := ''worker''\<rparr>" and env = sample_env
                and stream_name = "''ORDERS''" and jreq = "''ORDERS worker''"
                and rq = "NcRequest ''create'' ''ORDERS worker'' 5000000000" and log = "[]"
                and response = "\<lparr>Subject = [], Reply = [], Data = ''+OK''\<rparr>"]
    by (simp add: DurableName_def sample_defs)
  have ephemeral:
    "NewConsumerFromTemplate sample_env ''ORDERS'' DefaultConsumer [] []
       = ((None, None), [] @ [NcRequest ''create'' ''ORDERS '' 5000000000])"
    using build_returns_load_by_durable_name [where template = DefaultConsumer and opts = "[]"
                and config = DefaultConsumer and env = sample_env
                and stream_name = "''ORDERS''" and jreq = "''ORDERS ''"
                and rq = "NcRequest ''create'' ''ORDERS '' 5000000000" and log = "[]"
                and response = "\<lparr>Subject = [], Reply = [], Data = ''+OK''\<rparr>"]
    by (simp add: sample_defs DefaultConsumer_def ObservableConfig_zero_def)
  have load:
    "LoadConsumer sample_env ''ORDERS'' ''worker''
       [NcRequest ''create'' ''ORDERS worker'' 5000000000]
       = ((Some \<lparr>name = ''worker'', stream = ''ORDERS'',
                 cfg = DefaultConsumer\<lparr>Durable := ''ORDERS worker''\<rparr>\<rparr>, None),
          [NcRequest ''create'' ''ORDERS worker'' 5000000000,
           NcRequest ''info'' ''ORDERS worker'' 5000000000])"
    by (simp add: load_defs sample_defs)
  from durable ephemeral load show ?thesis by simp
qed

text \<open>
  C8: \<^verbatim>\<open>LoadOrNewConsumerFromTemplate\<close> starts with the request of
  \<^verbatim>\<open>LoadConsumer\<close>; \<^verbatim>\<open>LoadConsumer\<close> returns either an error and no
  consumer or a consumer and no error; in the first case, whatever the error, the result is
  that of \<^verbatim>\<open>NewConsumerFromTemplate\<close> with the same stream, template and options;
  in the second the loaded consumer is returned and the describe request is the only call
  made.
\<close>

theorem LoadOrNew_falls_back_on_any_load_failure:
  assumes "rq = NcRequest (JetStreamObservableInfo env) (stream_name @ '' '' @ consumer_name)
                  (Timeout env)"
  shows "(\<forall>err log'. LoadConsumer env stream_name consumer_name log = ((None, Some err), log') \<longrightarrow>
            LoadOrNewConsumerFromTemplate env stream_name consumer_name template opts log
              = NewConsumerFromTemplate env stream_name template opts log'
            \<and> log' = log @ [rq])
         \<and> (\<forall>c log'. LoadConsumer env stream_name consumer_name log = ((Some c, None), log') \<longrightarrow>
            LoadOrNewConsumerFromTemplate env stream_name consumer_name template opts log
              = ((Some c, None), log')
            \<and> log' = log @ [rq])
         \<and> ((\<exists>err. fst (LoadConsumer env stream_name consumer_name log) = (None, Some err))
            \<or> (\<exists>c. fst (LoadConsumer env stream_name consumer_name log) = (Some c, None)))
         \<and> (\<exists>rest. snd (LoadOrNewConsumerFromTemplate env stream_name consumer_name
                           template opts log) = log @ rq # rest)"
proof (intro conjI allI impI)
  fix err log'
  assume load: "LoadConsumer env stream_name consumer_name log = ((None, Some err), log')"
  then show "LoadOrNewConsumerFromTemplate env stream_name consumer_name template opts log
               = NewConsumerFromTemplate env stream_name template opts log'"
    by (simp add: LoadOrNewConsumerFromTemplate_def)
  from load LoadConsumer_log [of env stream_name consumer_name log] assms
  show "log' = log @ [rq]" by simp
next
  fix c log'
  assume load: "LoadConsumer env stream_name consumer_name log = ((Some c, None), log')"
  then show "LoadOrNewConsumerFromTemplate env stream_name consumer_name template opts log
               = ((Some c, None), log')"
    by (simp add: LoadOrNewConsumerFromTemplate_def)
  from load LoadConsumer_log [of env stream_name consumer_name log] assms
  show "log' = log @ [rq]" by simp
next
  show "(\<exists>err. fst (LoadConsumer env stream_name consumer_name log) = (None, Some err))
        \<or> (\<exists>c. fst (LoadConsumer env stream_name consumer_name log) = (Some c, None))"
    by (rule LoadConsumer_shape)
next
  obtain r log' where load: "LoadConsumer env stream_name consumer_name log = (r, log')"
    by (cases "LoadConsumer env stream_name consumer_name log")
  with LoadConsumer_log [of env stream_name consumer_name log] assms
  have log': "log' = log @ [rq]" by simp
  obtain c e where r: "r = (c, e)" by (cases r)
  show "\<exists>rest. snd (LoadOrNewConsumerFromTemplate env stream_name consumer_name
                       template opts log) = log @ rq # rest"
  proof (cases "c = None \<or> e \<noteq> None")
    case True
    obtain rest where "snd (NewConsumerFromTemplate env stream_name template opts log')
                         = log' @ rest"
      using NewConsumerFromTemplate_log by blast
    with True load r log' show ?thesis
      by (auto simp add: LoadOrNewConsumerFromTemplate_def)
  next
    case False
    with load r log' show ?thesis
      by (auto simp add: LoadOrNewConsumerFromTemplate_def)
  qed
qed

theorem LoadOrNew_falls_back_on_any_load_failure_witness:
  "LoadOrNewConsumerFromTemplate sample_env ''ORDERS'' ''worker'' DefaultConsumer
      [DurableName ''worker''] []
     = NewConsumerFromTemplate sample_env ''ORDERS'' DefaultConsumer [DurableName ''worker'']
         [NcRequest ''info'' ''ORDERS worker'' 5000000000]
   \<and> LoadOrNewConsumerFromTemplate sample_env ''ORDERS'' ''worker'' DefaultConsumer
      [DurableName ''worker''] [NcSubscribeSync ''x'']
     = ((Some \<lparr>name = ''worker'', stream = ''ORDERS'',
               cfg = DefaultConsumer\<lparr>Durable := ''ORDERS worker''\<rparr>\<rparr>, None),
        [NcSubscribeSync ''x'', NcRequest ''info'' ''ORDERS worker'' 5000000000])"
proof -
  have fails: "LoadConsumer sample_env ''ORDERS'' ''worker'' []
       = ((None, Some (Errorf ''-ERR not found'')),
          [NcRequest ''info'' ''ORDERS worker'' 5000000000])"
    by (simp add: load_defs sample_defs)
  have loads: "LoadConsumer sample_env ''ORDERS'' ''worker'' [NcSubscribeSync ''x'']
       = ((Some \<lparr>name = ''worker'', stream = ''ORDERS'',
                 cfg = DefaultConsumer\<lparr>Durable := ''ORDERS worker''\<rparr>\<rparr>, None),
          [NcSubscribeSync ''x'', NcRequest ''info'' ''ORDERS worker'' 5000000000])"
    by (simp add: load_defs sample_defs)
  have rq: "NcRequest ''info'' ''ORDERS worker'' 5000000000
              = NcRequest (JetStreamObservableInfo sample_env) (''ORDERS'' @ '' '' @ ''worker'')
                  (Timeout sample_env)"
    by (simp add: sample_defs)
  from LoadOrNew_falls_back_on_any_load_failure [OF rq, of "[]" DefaultConsumer "[DurableName ''worker'']"] fails
  have a: "LoadOrNewConsumerFromTemplate sample_env ''ORDERS'' ''worker'' DefaultConsumer
             [DurableName ''worker''] []
           = NewConsumerFromTemplate sample_env ''ORDERS'' DefaultConsumer
               [DurableName ''worker''] [NcRequest ''info'' ''ORDERS worker'' 5000000000]"
    by simp
  from LoadOrNew_falls_back_on_any_load_failure [OF rq, of "[NcSubscribeSync ''x'']" DefaultConsumer "[DurableName ''worker'']"] loads
  have b: "LoadOrNewConsumerFromTemplate sample_env ''ORDERS'' ''worker'' DefaultConsumer
             [DurableName ''worker''] [NcSubscribeSync ''x'']
           = ((Some \<lparr>name = ''worker'', stream = ''ORDERS'',
                     cfg = DefaultConsumer\<lparr>Durable := ''ORDERS worker''\<rparr>\<rparr>, None),
              [NcSubscribeSync ''x'', NcRequest ''info'' ''ORDERS worker'' 5000000000])"
    by simp
  from a b show ?thesis by simp
qed

text \<open>
  C10: when \<^verbatim>\<open>Reset\<close> returns an error, the consumer (name, stream and
  configuration) is as it was before the call. It returns an error when the describe request
  fails, when the answer is an error response and when the answer does not decode; otherwise
  it replaces the configuration by the decoded one and keeps name and stream.
\<close>

theorem Reset_failure_keeps_consumer:
  assumes "rq = NcRequest (JetStreamObservableInfo env) (stream c @ '' '' @ name c) (Timeout env)"
  shows "(\<forall>c' err log'. Reset env c log = ((c', Some err), log') \<longrightarrow> c' = c)
         \<and> (\<forall>err. request_reply env log rq = Inl err \<longrightarrow>
               Reset env c log = ((c, Some err), log @ [rq]))
         \<and> (\<forall>m. request_reply env log rq = Inr m \<and> IsErrorResponse env m \<longrightarrow>
               Reset env c log = ((c, Some (Errorf (Data m))), log @ [rq]))
         \<and> (\<forall>m info err. request_reply env log rq = Inr m \<and> \<not> IsErrorResponse env m
                 \<and> json_Unmarshal env (Data m) (ObservableInfo_zero env) = (info, Some err) \<longrightarrow>
               Reset env c log = ((c, Some err), log @ [rq]))
         \<and> (\<forall>m info. request_reply env log rq = Inr m \<and> \<not> IsErrorResponse env m
                 \<and> json_Unmarshal env (Data m) (ObservableInfo_zero env) = (info, None) \<longrightarrow>
               Reset env c log = ((c\<lparr>cfg := Config info\<rparr>, None), log @ [rq]))"
proof (intro conjI allI impI)
  fix c' err log'
  assume "Reset env c log = ((c', Some err), log')"
  then show "c' = c"
    using loadConfigForConsumer_failure by (simp add: Reset_def)
next
  fix err
  assume "request_reply env log rq = Inl err"
  with assms show "Reset env c log = ((c, Some err), log @ [rq])"
    by (simp add: Reset_def loadConfigForConsumer_def loadConsumerInfo_def nc_Request_def)
next
  fix m
  assume "request_reply env log rq = Inr m \<and> IsErrorResponse env m"
  with assms show "Reset env c log = ((c, Some (Errorf (Data m))), log @ [rq])"
    by (simp add: Reset_def loadConfigForConsumer_def loadConsumerInfo_def nc_Request_def)
next
  fix m info err
  assume "request_reply env log rq = Inr m \<and> \<not> IsErrorResponse env m
            \<and> json_Unmarshal env (Data m) (ObservableInfo_zero env) = (info, Some err)"
  with assms show "Reset env c log = ((c, Some err), log @ [rq])"
    by (simp add: Reset_def loadConfigForConsumer_def loadConsumerInfo_def nc_Request_def)
next
  fix m info
  assume "request_reply env log rq = Inr m \<and> \<not> IsErrorResponse env m
            \<and> json_Unmarshal env (Data m) (ObservableInfo_zero env) = (info, None)"
  with assms show "Reset env c log = ((c\<lparr>cfg := Config info\<rparr>, None), log @ [rq])"
    by (simp add: Reset_def loadConfigForConsumer_def loadConsumerInfo_def nc_Request_def)
qed

theorem Reset_failure_keeps_consumer_witness:
  "Reset sample_env pull_consumer []
     = ((pull_consumer, Some (Errorf ''-ERR not found'')),
        [NcRequest ''info'' ''ORDERS worker'' 5000000000])
   \<and> Reset (sample_env\<lparr>request_reply := \<lambda>log call. Inl (TransportError ''timeout'')\<rparr>)
        pull_consumer []
     = ((pull_consumer, Some (TransportError ''timeout'')),
        [NcRequest ''info'' ''ORDERS worker'' 5000000000])
   \<and> Reset (sample_env\<lparr>json_Unmarshal := \<lambda>payload info. (info, Some (UnmarshalError ''bad''))\<rparr>)
        pull_consumer [NcSubscribeSync ''x'']
     = ((pull_consumer, Some (UnmarshalError ''bad'')),
        [NcSubscribeSync ''x'', NcRequest ''info'' ''ORDERS worker'' 5000000000])
   \<and> Reset sample_env pull_consumer [NcSubscribeSync ''x'']
     = ((pull_consumer\<lparr>cfg := DefaultConsumer\<lparr>Durable := ''ORDERS worker''\<rparr>\<rparr>, None),
        [NcSubscribeSync ''x'', NcRequest ''info'' ''ORDERS worker'' 5000000000])"
proof -
  let ?rq = "NcRequest ''info'' ''ORDERS worker'' 5000000000"
  let ?down = "sample_env\<lparr>request_reply := \<lambda>log call. Inl (TransportError ''timeout'')\<rparr>"
  let ?bad = "sample_env\<lparr>json_Unmarshal := \<lambda>payload info. (info, Some (UnmarshalError ''bad''))\<rparr>"
  have rq: "?rq = NcRequest (JetStreamObservableInfo sample_env)
                    (stream pull_consumer @ '' '' @ name pull_consumer) (Timeout sample_env)"
    by (simp add: sample_defs)
  have rq_down: "?rq = NcRequest (JetStreamObservableInfo ?down)
                    (stream pull_consumer @ '' '' @ name pull_consumer) (Timeout ?down)"
    by (simp add: sample_defs)
  have rq_bad: "?rq = NcRequest (JetStreamObservableInfo ?bad)
                    (stream pull_consumer @ '' '' @ name pull_consumer) (Timeout ?bad)"
    by (simp add: sample_defs)
  have a: "Reset sample_env pull_consumer []
             = ((pull_consumer, Some (Errorf ''-ERR not found'')), [?rq])"
    using Reset_failure_keeps_consumer [OF rq, of "[]"] by (simp add: sample_defs)
  have b: "Reset ?down pull_consumer [] = ((pull_consumer, Some (TransportError ''timeout'')), [?rq])"
    using Reset_failure_keeps_consumer [OF rq_down, of "[]"] by (simp add: sample_defs)
  have c: "Reset ?bad pull_consumer [NcSubscribeSync ''x'']
             = ((pull_consumer, Some (UnmarshalError ''bad'')), [NcSubscribeSync ''x'', ?rq])"
    using Reset_failure_keeps_consumer [OF rq_bad, of "[NcSubscribeSync ''x'']"]
    by (simp add: sample_defs ObservableInfo_zero_def)
  have d: "Reset sample_env pull_consumer [NcSubscribeSync ''x'']
             = ((pull_consumer\<lparr>cfg := DefaultConsumer\<lparr>Durable := ''ORDERS worker''\<rparr>\<rparr>, None),
                [NcSubscribeSync ''x'', ?rq])"
    using Reset_failure_keeps_consumer [OF rq, of "[NcSubscribeSync ''x'']"]
    by (simp add: sample_defs ObservableInfo_zero_def)
  from a b c d show ?thesis by simp
qed

subsection \<open>Subscribing and fetching\<close>

text \<open>
  C9: on a pull consumer each of the seven subscribing methods returns no subscription and
  the error "consumer S > N is not push-based" and leaves the log as it was; on a push
  consumer \<^verbatim>\<open>NextMsgs(n)\<close> returns no message and the error "consumer S > N is
  not pull-based" and leaves the log as it was; \<^verbatim>\<open>NextMsg\<close> is
  \<^verbatim>\<open>NextMsgs(1)\<close>.
\<close>

theorem wrong_mode_fails_without_a_call:
  assumes "e_push = Errorf (''consumer '' @ stream c @ '' > '' @ name c @ '' is not push-based'')"
      and "e_pull = Errorf (''consumer '' @ stream c @ '' > '' @ name c @ '' is not pull-based'')"
  shows "(IsPullMode c \<longrightarrow>
            Subscribe env c h log = ((None, Some e_push), log)
          \<and> ChanSubscribe env c ch log = ((None, Some e_push), log)
          \<and> ChanQueueSubscribe env c queue ch log = ((None, Some e_push), log)
          \<and> SubscribeSync env c log = ((None, Some e_push), log)
          \<and> QueueSubscribe env c queue h log = ((None, Some e_push), log)
          \<and> QueueSubscribeSync env c queue log = ((None, Some e_push), log)
          \<and> QueueSubscribeSyncWithChan env c queue ch log = ((None, Some e_push), log))
         \<and> (IsPushMode c \<longrightarrow> NextMsgs env c n log = ((None, Some e_pull), log))
         \<and> NextMsg env c log = NextMsgs env c 1 log"
  using assms
  by (simp add: Subscribe_def ChanSubscribe_def ChanQueueSubscribe_def SubscribeSync_def
        QueueSubscribe_def QueueSubscribeSync_def QueueSubscribeSyncWithChan_def
        NextMsgs_def NextMsg_def IsPushMode_def not_push_based_def not_pull_based_def)

theorem wrong_mode_fails_without_a_call_witness:
  "Subscribe sample_env pull_consumer 0 []
     = ((None, Some (Errorf ''consumer ORDERS > worker is not push-based'')), [])
   \<and> QueueSubscribeSyncWithChan sample_env pull_consumer ''q'' 0 []
     = ((None, Some (Errorf ''consumer ORDERS > worker is not push-based'')), [])
   \<and> NextMsgs sample_env push_consumer 5 []
     = ((None, Some (Errorf ''consumer ORDERS > worker is not pull-based'')), [])"
proof -
  have pull: "IsPullMode pull_consumer"
    by (simp add: IsPullMode_def pull_consumer_def DefaultConsumer_def ObservableConfig_zero_def)
  have push: "IsPushMode push_consumer"
    by (simp add: IsPushMode_def IsPullMode_def push_consumer_def)
  have e1: "Errorf ''consumer ORDERS > worker is not push-based''
              = Errorf (''consumer '' @ stream pull_consumer @ '' > '' @ name pull_consumer
                          @ '' is not push-based'')"
    by (simp add: pull_consumer_def)
  have e2: "Errorf ''consumer ORDERS > worker is not pull-based''
              = Errorf (''consumer '' @ stream pull_consumer @ '' > '' @ name pull_consumer
                          @ '' is not pull-based'')"
    by (simp add: pull_consumer_def)
  have e3: "Errorf ''consumer ORDERS > worker is not push-based''
              = Errorf (''consumer '' @ stream push_consumer @ '' > '' @ name push_consumer
                          @ '' is not push-based'')"
    by (simp add: push_consumer_def)
  have e4: "Errorf ''consumer ORDERS > worker is not pull-based''
              = Errorf (''consumer '' @ stream push_consumer @ '' > '' @ name push_consumer
                          @ '' is not pull-based'')"
    by (simp add: push_consumer_def)
  from wrong_mode_fails_without_a_call [OF e1 e2, of sample_env 0 "[]" 0 "''q''" 5] pull
       wrong_mode_fails_without_a_call [OF e3 e4, of sample_env 0 "[]" 0 "''q''" 5] push
  show ?thesis by simp
qed

end
